theory Spec2Isabelle
  imports Main
begin

section \<open>Strings, paths and exceptions\<close>

text \<open>
  Python strings are modelled as \<open>string\<close>; a character outside ASCII is written as its
  UTF-8 bytes. A path is a string.
\<close>

type_synonym path = string

definition newline :: string where
  "newline = [CHR 0x0A]"

text \<open>
  A raised Python exception is a value: its class and its message, and for
  \<^verbatim>\<open>raise ValueError(...) from e\<close> the cause \<open>e\<close>.
\<close>

datatype exn =
    OSError string
  | ValueError string "exn option"
  | OtherException string

fun exn_str :: "exn \<Rightarrow> string" where
  "exn_str (OSError m) = m"
| "exn_str (ValueError m c) = m"
| "exn_str (OtherException m) = m"

fun is_OSError :: "exn \<Rightarrow> bool" where
  "is_OSError (OSError m) = True"
| "is_OSError e = False"

section \<open>app.py: the chat endpoint\<close>

text \<open>
  \<^verbatim>\<open>ChatMessage\<close>, \<^verbatim>\<open>ChatRequest\<close> and \<^verbatim>\<open>ChatResponse\<close> are the pydantic models of the
  request and the response.
\<close>

record chat_message =
  role :: string
  content :: string

record chat_request =
  session_id :: string
  messages :: "chat_message list"

record chat_response =
  answer :: string

text \<open>The message classes of langchain\_core that the endpoint builds and reads.\<close>

datatype base_message =
    HumanMessage string
  | AIMessage string
  | ToolMessage string

fun message_content :: "base_message \<Rightarrow> string" where
  "message_content (HumanMessage c) = c"
| "message_content (AIMessage c) = c"
| "message_content (ToolMessage c) = c"

text \<open>
  An entry of \<^verbatim>\<open>result["messages"]\<close>: the endpoint tests each one with
  \<^verbatim>\<open>isinstance(msg, BaseMessage) and hasattr(msg, "content")\<close>; every BaseMessage has the
  attribute, anything else fails the test.
\<close>

datatype result_item =
    Message base_message
  | NonMessage

datatype http_error = HTTPException nat string

text \<open>
  The answer of line 114 (Vietnamese for "no suitable response found"), in UTF-8.
\<close>

definition fallback_answer :: string where
  "fallback_answer =
     [CHR 0x4B, CHR 0x68, CHR 0xC3, CHR 0xB4, CHR 0x6E, CHR 0x67, CHR 0x20,
      CHR 0x74, CHR 0xC3, CHR 0xAC, CHR 0x6D, CHR 0x20,
      CHR 0x74, CHR 0x68, CHR 0xE1, CHR 0xBA, CHR 0xA5, CHR 0x79, CHR 0x20,
      CHR 0x70, CHR 0x68, CHR 0xE1, CHR 0xBA, CHR 0xA3, CHR 0x6E, CHR 0x20,
      CHR 0x68, CHR 0xE1, CHR 0xBB, CHR 0x93, CHR 0x69, CHR 0x20,
      CHR 0x70, CHR 0x68, CHR 0xC3, CHR 0xB9, CHR 0x20,
      CHR 0x68, CHR 0xE1, CHR 0xBB, CHR 0xA3, CHR 0x70, CHR 0x2E]"

text \<open>Lines 98 to 103: one pass of the loop body, appending to \<^verbatim>\<open>messages\<close>.\<close>

fun append_message :: "base_message list \<Rightarrow> chat_message \<Rightarrow> base_message list" where
  "append_message acc msg =
     (if role msg = ''user'' then acc @ [HumanMessage (content msg)]
      else if role msg = ''assistant'' then acc @ [AIMessage (content msg)]
      else acc)"

definition convert_messages :: "chat_message list \<Rightarrow> base_message list" where
  "convert_messages ms = foldl append_message [] ms"

text \<open>
  Lines 110 to 112: the loop over \<^verbatim>\<open>reversed(result["messages"])\<close>, given the reversed
  list; \<open>None\<close> when the loop ends without returning.
\<close>

fun first_content :: "result_item list \<Rightarrow> string option" where
  "first_content [] = None"
| "first_content (Message m # rest) = Some (message_content m)"
| "first_content (NonMessage # rest) = first_content rest"

text \<open>
  The agent of \<^verbatim>\<open>create_react_agent\<close> is a parameter: given the converted messages and
  the \<^verbatim>\<open>contents\<close> list it raises or returns the final message list.
\<close>

type_synonym agent = "base_message list \<Rightarrow> string list \<Rightarrow> exn + result_item list"

definition chat :: "agent \<Rightarrow> chat_request \<Rightarrow> http_error + chat_response" where
  "chat agent_invoke req =
     (let msgs = convert_messages (messages req) in
      case agent_invoke msgs (map content (messages req)) of
        Inl e \<Rightarrow> Inl (HTTPException 500 (''Agent error: '' @ exn_str e))
      | Inr result \<Rightarrow>
          (case first_content (rev result) of
             Some c \<Rightarrow> Inr \<lparr>answer = c\<rparr>
           | None \<Rightarrow> Inr \<lparr>answer = fallback_answer\<rparr>))"

text \<open>The entries of a result list that are messages, in order.\<close>

fun base_messages :: "result_item list \<Rightarrow> base_message list" where
  "base_messages [] = []"
| "base_messages (Message m # rest) = m # base_messages rest"
| "base_messages (NonMessage # rest) = base_messages rest"

text \<open>
  The answer as the specification words it: the content of the last assistant message
  with non-empty content, and the fallback string when there is none.
\<close>

fun is_assistant_answer :: "base_message \<Rightarrow> bool" where
  "is_assistant_answer (AIMessage c) = (c \<noteq> [])"
| "is_assistant_answer m = False"

definition spec_answer :: "result_item list \<Rightarrow> string" where
  "spec_answer result =
     (case rev (filter is_assistant_answer (base_messages result)) of
        [] \<Rightarrow> fallback_answer
      | m # rest \<Rightarrow> message_content m)"

section \<open>Python's string and path functions\<close>

definition startswith :: "string \<Rightarrow> string \<Rightarrow> bool" where
  "startswith s p = (take (length p) s = p)"

definition endswith :: "string \<Rightarrow> string \<Rightarrow> bool" where
  "endswith s p = (length p \<le> length s \<and> drop (length s - length p) s = p)"

text \<open>\<^verbatim>\<open>os.path.join(a, b)\<close> of posixpath, for two components.\<close>

definition path_join :: "path \<Rightarrow> path \<Rightarrow> path" where
  "path_join a b =
     (if startswith b ''/'' then b
      else if a = [] \<or> endswith a ''/'' then a @ b
      else a @ ''/'' @ b)"

text \<open>\<^verbatim>\<open>os.path.basename(p)\<close>: what follows the last slash, \<^verbatim>\<open>p[p.rfind('/') + 1:]\<close>.\<close>

definition basename :: "path \<Rightarrow> string" where
  "basename p = rev (takeWhile (\<lambda>c. c \<noteq> CHR ''/'') (rev p))"

text \<open>\<^verbatim>\<open>sep.join(parts)\<close>.\<close>

fun str_join :: "string \<Rightarrow> string list \<Rightarrow> string" where
  "str_join sep [] = []"
| "str_join sep [x] = x"
| "str_join sep (x # y # ys) = x @ sep @ str_join sep (y # ys)"

text \<open>\<^verbatim>\<open>str(n)\<close> for a length, as the f-strings print it.\<close>

definition digit_char :: "nat \<Rightarrow> char" where
  "digit_char d = char_of (48 + d)"

fun show_nat :: "nat \<Rightarrow> string" where
  "show_nat n = (if n < 10 then [digit_char n] else show_nat (n div 10) @ [digit_char (n mod 10)])"

section \<open>Documents and the operating system\<close>

text \<open>A langchain \<^verbatim>\<open>Document\<close>: the text and the metadata dictionary.\<close>

record document =
  page_content :: string
  metadata :: "string \<rightharpoonup> string"

text \<open>
  The calls into \<^verbatim>\<open>os\<close>, \<^verbatim>\<open>shutil\<close> and \<^verbatim>\<open>open\<close> are parameters over a state \<open>'w\<close> of
  the file system: a query reads the state, a command returns the exception it raised or
  \<open>()\<close>, and the state it left.
\<close>

record 'w os_ops =
  os_path_exists :: "'w \<Rightarrow> path \<Rightarrow> bool"
  os_listdir :: "'w \<Rightarrow> path \<Rightarrow> exn + string list"
  open_read :: "'w \<Rightarrow> path \<Rightarrow> exn + string"
  shutil_rmtree :: "path \<Rightarrow> 'w \<Rightarrow> (exn + unit) \<times> 'w"
  os_makedirs :: "path \<Rightarrow> 'w \<Rightarrow> (exn + unit) \<times> 'w"

text \<open>
  \<^verbatim>\<open>RecursiveCharacterTextSplitter(chunk_size, chunk_overlap).split_documents\<close> of
  langchain is a parameter.
\<close>

type_synonym splitter = "int \<Rightarrow> int \<Rightarrow> document list \<Rightarrow> exn + document list"

section \<open>vector\_store.py: load\_and\_process\_documents\<close>

text \<open>
  Lines 39 to 54: the body of the loop over the file names, on the pair of
  \<^verbatim>\<open>documents\<close> and the lines printed so far.
\<close>

definition load_file ::
  "'w os_ops \<Rightarrow> 'w \<Rightarrow> path \<Rightarrow> document list \<times> string list \<Rightarrow> string
     \<Rightarrow> document list \<times> string list" where
  "load_file os w data_folder acc filename =
     (case acc of (documents, out) \<Rightarrow>
        if endswith filename ''.txt'' then
          (let full_path = path_join data_folder filename in
           case open_read os w full_path of
             Inr text \<Rightarrow>
               (documents @ [\<lparr>page_content = text, metadata = [''source'' \<mapsto> full_path]\<rparr>], out)
           | Inl e \<Rightarrow>
               (documents, out @ [''Error reading file '' @ full_path @ '': '' @ exn_str e]))
        else (documents, out))"

text \<open>The function returns what it raises or returns, and the lines it printed.\<close>

definition load_and_process_documents ::
  "'w os_ops \<Rightarrow> splitter \<Rightarrow> 'w \<Rightarrow> path \<Rightarrow> int \<Rightarrow> int
     \<Rightarrow> (exn + document list) \<times> string list" where
  "load_and_process_documents os split_documents w data_folder chunk_size chunk_overlap =
     (let out0 = [''Loading documents from '' @ data_folder @ ''...''] in
      if \<not> os_path_exists os w data_folder then
        (Inr [], out0 @ [''Data folder not found: '' @ data_folder])
      else
        case os_listdir os w data_folder of
          Inl e \<Rightarrow>
            if is_OSError e then
              (Inr [], out0 @ [''Error listing files in '' @ data_folder @ '': '' @ exn_str e])
            else (Inl e, out0)
        | Inr filenames \<Rightarrow>
            if filenames = [] then
              (Inr [], out0 @ [''No files found in '' @ data_folder @ ''.''])
            else
              (case foldl (load_file os w data_folder) ([], out0) filenames of
                 (documents, out1) \<Rightarrow>
                   (let out2 = out1 @ [''Loaded '' @ show_nat (length documents) @ '' documents.''] in
                    if documents = [] then (Inr [], out2 @ [''No documents loaded.''])
                    else
                      case split_documents chunk_size chunk_overlap documents of
                        Inl e \<Rightarrow> (Inl e, out2)
                      | Inr all_splits \<Rightarrow>
                          (Inr all_splits,
                           out2 @ [''Split into '' @ show_nat (length all_splits) @ '' chunks.'']))))"

text \<open>
  What one file name contributes, stated apart from the loop: the document of a
  readable text file, and the warning of an unreadable one.
\<close>

definition file_documents :: "'w os_ops \<Rightarrow> 'w \<Rightarrow> path \<Rightarrow> string \<Rightarrow> document list" where
  "file_documents os w data_folder filename =
     (if endswith filename ''.txt'' then
        (case open_read os w (path_join data_folder filename) of
           Inr text \<Rightarrow>
             [\<lparr>page_content = text, metadata = [''source'' \<mapsto> path_join data_folder filename]\<rparr>]
         | Inl e \<Rightarrow> [])
      else [])"

definition file_warnings :: "'w os_ops \<Rightarrow> 'w \<Rightarrow> path \<Rightarrow> string \<Rightarrow> string list" where
  "file_warnings os w data_folder filename =
     (if endswith filename ''.txt'' then
        (case open_read os w (path_join data_folder filename) of
           Inr text \<Rightarrow> []
         | Inl e \<Rightarrow>
             [''Error reading file '' @ path_join data_folder filename @ '': '' @ exn_str e])
      else [])"

section \<open>vector\_store.py: get\_vectorstore\<close>

text \<open>
  Chroma is a parameter: \<^verbatim>\<open>Chroma.from_documents(documents, embedding, persist_directory)\<close>
  and the constructor \<^verbatim>\<open>Chroma(persist_directory, embedding_function)\<close>, each returning
  the exception or the store handle, and the state of the file system it left.
  \<open>'e\<close> is the embedding model and \<open>'i\<close> the store handle.
\<close>

record ('w, 'e, 'i) chroma_ops =
  from_documents :: "document list \<Rightarrow> 'e \<Rightarrow> path \<Rightarrow> 'w \<Rightarrow> (exn + 'i) \<times> 'w"
  chroma_open :: "path \<Rightarrow> 'e \<Rightarrow> 'w \<Rightarrow> (exn + 'i) \<times> 'w"

definition get_vectorstore ::
  "'w os_ops \<Rightarrow> ('w, 'e, 'i) chroma_ops \<Rightarrow> document list \<Rightarrow> 'e \<Rightarrow> path \<Rightarrow> 'w
     \<Rightarrow> (exn + 'i) \<times> 'w" where
  "get_vectorstore os chroma splits embedding_model persist_directory w =
     (let db_path = path_join persist_directory ''chroma.sqlite3'';
          needs_rebuild = \<not> os_path_exists os w db_path
      in
      if needs_rebuild then
        if splits = [] then
          (Inl (ValueError ''Cannot build vector store: No document splits provided.'' None), w)
        else
          (case (if os_path_exists os w persist_directory
                 then shutil_rmtree os persist_directory w else (Inr (), w)) of
             (Inl e, w1) \<Rightarrow> (Inl e, w1)
           | (Inr u, w1) \<Rightarrow>
               (case os_makedirs os persist_directory w1 of
                  (Inl e, w2) \<Rightarrow> (Inl e, w2)
                | (Inr u, w2) \<Rightarrow>
                    from_documents chroma splits embedding_model persist_directory w2))
      else
        (case chroma_open chroma persist_directory embedding_model w of
           (Inl e, w1) \<Rightarrow>
             (Inl (ValueError ''Failed to load vector store. Rebuilding is required.'' (Some e)),
              w1)
         | (Inr vectorstore, w1) \<Rightarrow> (Inr vectorstore, w1)))"

section \<open>app.py: the retrieval tool\<close>

definition RETRIEVAL_K :: nat where
  "RETRIEVAL_K = 4"

text \<open>
  \<^verbatim>\<open>vectorstore.as_retriever(search_kwargs={"k": k}).invoke(query)\<close> is a parameter: given
  \<open>k\<close> and the query it raises or returns the documents found, best match first.
\<close>

type_synonym retriever = "nat \<Rightarrow> string \<Rightarrow> exn + document list"

text \<open>Lines 57 and 58: the block of one document.\<close>

definition format_document :: "document \<Rightarrow> string" where
  "format_document doc =
     (let source = basename (case metadata doc ''source'' of Some s \<Rightarrow> s | None \<Rightarrow> ''N/A'')
      in ''Source: '' @ source @ newline @ ''---'' @ newline @ page_content doc)"

definition retrieve_documents :: "retriever \<Rightarrow> string \<Rightarrow> exn + string" where
  "retrieve_documents retriever_invoke query =
     (case retriever_invoke RETRIEVAL_K query of
        Inl e \<Rightarrow> Inl e
      | Inr results \<Rightarrow>
          if results = [] then Inr ''No relevant documents found.''
          else
            (let formatted = foldl (\<lambda>acc doc. acc @ [format_document doc]) [] results
             in Inr (str_join (newline @ newline) formatted)))"

section \<open>An example file system and store\<close>

text \<open>
  A small file system on which the functions above run: an association list from paths
  to nodes. Removing a tree drops the path and everything below it; a file cannot be
  listed, and a directory cannot be read as text.
\<close>

datatype node = Dir | File string

type_synonym example_fs = "(path \<times> node) list"

definition example_exists :: "example_fs \<Rightarrow> path \<Rightarrow> bool" where
  "example_exists fs p = (map_of fs p \<noteq> None)"

definition example_listdir :: "example_fs \<Rightarrow> path \<Rightarrow> exn + string list" where
  "example_listdir fs p =
     (case map_of fs p of
        Some Dir \<Rightarrow>
          Inr (map (\<lambda>qn. drop (length p + 1) (fst qn))
                 (filter (\<lambda>qn. startswith (fst qn) (p @ ''/'')) fs))
      | Some (File t) \<Rightarrow> Inl (OSError ''Not a directory'')
      | None \<Rightarrow> Inl (OSError ''No such file or directory''))"

definition example_read :: "example_fs \<Rightarrow> path \<Rightarrow> exn + string" where
  "example_read fs p =
     (case map_of fs p of
        Some (File t) \<Rightarrow> Inr t
      | Some Dir \<Rightarrow> Inl (OSError ''Is a directory'')
      | None \<Rightarrow> Inl (OSError ''No such file or directory''))"

definition example_rmtree :: "path \<Rightarrow> example_fs \<Rightarrow> (exn + unit) \<times> example_fs" where
  "example_rmtree p fs =
     (Inr (), filter (\<lambda>qn. fst qn \<noteq> p \<and> \<not> startswith (fst qn) (p @ ''/'')) fs)"

definition example_makedirs :: "path \<Rightarrow> example_fs \<Rightarrow> (exn + unit) \<times> example_fs" where
  "example_makedirs p fs = (Inr (), if example_exists fs p then fs else fs @ [(p, Dir)])"

definition example_os :: "example_fs os_ops" where
  "example_os =
     \<lparr>os_path_exists = example_exists, os_listdir = example_listdir,
      open_read = example_read, shutil_rmtree = example_rmtree,
      os_makedirs = example_makedirs\<rparr>"

text \<open>
  A store that keeps its collection in the file \<^verbatim>\<open>chroma.sqlite3\<close> of its directory, one
  line for each embedded text. Building creates the file and then adds the documents one
  by one, stopping at the first whose embedding raises; opening returns the file's
  content, and fails when there is no such file.
\<close>

type_synonym example_embedding = "string \<Rightarrow> exn + string"

fun write_line :: "path \<Rightarrow> string \<Rightarrow> example_fs \<Rightarrow> example_fs" where
  "write_line db l [] = []"
| "write_line db l ((q, n) # fs) =
     (if q = db then (case n of File t \<Rightarrow> (q, File (t @ l @ newline)) # fs | Dir \<Rightarrow> (q, n) # fs)
      else (q, n) # write_line db l fs)"

fun add_documents ::
  "document list \<Rightarrow> example_embedding \<Rightarrow> path \<Rightarrow> example_fs \<Rightarrow> (exn + string) \<times> example_fs" where
  "add_documents [] emb db fs = (example_read fs db, fs)"
| "add_documents (d # ds) emb db fs =
     (case emb (page_content d) of
        Inl e \<Rightarrow> (Inl e, fs)
      | Inr v \<Rightarrow> add_documents ds emb db (write_line db v fs))"

definition example_from_documents ::
  "document list \<Rightarrow> example_embedding \<Rightarrow> path \<Rightarrow> example_fs \<Rightarrow> (exn + string) \<times> example_fs" where
  "example_from_documents docs emb p fs =
     (let db = path_join p ''chroma.sqlite3''
      in add_documents docs emb db (fs @ [(db, File [])]))"

definition example_open ::
  "path \<Rightarrow> example_embedding \<Rightarrow> example_fs \<Rightarrow> (exn + string) \<times> example_fs" where
  "example_open p emb fs = (example_read fs (path_join p ''chroma.sqlite3''), fs)"

definition example_chroma :: "(example_fs, example_embedding, string) chroma_ops" where
  "example_chroma = \<lparr>from_documents = example_from_documents, chroma_open = example_open\<rparr>"

definition doc :: "string \<Rightarrow> path \<Rightarrow> document" where
  "doc t src = \<lparr>page_content = t, metadata = [''source'' \<mapsto> src]\<rparr>"

definition embed_all :: example_embedding where
  "embed_all t = Inr t"

definition embed_short :: example_embedding where
  "embed_short t = (if length t \<le> 1 then Inr t else Inl (OtherException ''embedding failed''))"

definition fs_docs :: example_fs where
  "fs_docs =
     [(''d'', Dir), (''d/a.txt'', Dir), (''d/b.txt'', File ''hi''), (''d/c.md'', File ''no'')]"

definition fs_stale :: example_fs where
  "fs_stale = [(''v'', Dir), (''v/old'', File ''z'')]"

definition fs_built :: example_fs where
  "fs_built = [(''v'', Dir), (''v/chroma.sqlite3'', File (''a'' @ newline))]"


definition keep_whole :: splitter where
  "keep_whole chunk_size chunk_overlap docs = Inr docs"

section \<open>Notions used to state the properties\<close>

text \<open>The roles the endpoint converts, and the message each becomes.\<close>

definition has_known_role :: "chat_message \<Rightarrow> bool" where
  "has_known_role m = (role m = ''user'' \<or> role m = ''assistant'')"

definition to_base_message :: "chat_message \<Rightarrow> base_message" where
  "to_base_message m =
     (if role m = ''user'' then HumanMessage (content m) else AIMessage (content m))"

text \<open>\<^verbatim>\<open>doc.metadata.get("source", "N/A")\<close>.\<close>

definition source_of :: "document \<Rightarrow> string" where
  "source_of d = (case metadata d ''source'' of Some s \<Rightarrow> s | None \<Rightarrow> ''N/A'')"

section \<open>Properties of the chat endpoint\<close>

lemma foldl_append_message:
  "foldl append_message acc ms = acc @ map to_base_message (filter has_known_role ms)"
  by (induction ms arbitrary: acc) (simp_all add: has_known_role_def to_base_message_def)

text \<open>
  C10: the conversation passed to the agent is the request's messages with every message
  whose role is neither "user" nor "assistant" left out, the others converted one by one
  and kept in their order. The conversion is a total function: no role raises.
\<close>

theorem convert_messages_drops_other_roles:
  "convert_messages ms = map to_base_message (filter has_known_role ms)"
  by (simp add: convert_messages_def foldl_append_message)

text \<open>C10 at a request with a "system" message between a user and an assistant message.\<close>

theorem convert_messages_drops_other_roles_witness:
  "convert_messages
     [\<lparr>role = ''user'', content = ''hi''\<rparr>, \<lparr>role = ''system'', content = ''be brief''\<rparr>,
      \<lparr>role = ''assistant'', content = ''hello''\<rparr>]
     = [HumanMessage ''hi'', AIMessage ''hello'']"
  using convert_messages_drops_other_roles
          [of "[\<lparr>role = ''user'', content = ''hi''\<rparr>, \<lparr>role = ''system'', content = ''be brief''\<rparr>,
                \<lparr>role = ''assistant'', content = ''hello''\<rparr>]"]
  by (simp add: has_known_role_def to_base_message_def)

lemma first_content_base:
  "first_content xs =
     (case base_messages xs of [] \<Rightarrow> None | m # r \<Rightarrow> Some (message_content m))"
  by (induction xs rule: first_content.induct) simp_all

lemma base_messages_append: "base_messages (xs @ ys) = base_messages xs @ base_messages ys"
  by (induction xs rule: base_messages.induct) simp_all

lemma base_messages_rev: "base_messages (rev xs) = rev (base_messages xs)"
  by (induction xs rule: base_messages.induct) (simp_all add: base_messages_append)

text \<open>
  C2, as the code has it: when the agent returns, the answer is the content of the last
  message of the final conversation, whatever its role and whether or not its content is
  empty; the fallback string is the answer exactly when the final conversation holds no
  message at all.
\<close>

theorem chat_answer_is_last_message:
  assumes "agent_invoke (convert_messages (messages req)) (map content (messages req)) = Inr result"
  shows "chat agent_invoke req =
           Inr \<lparr>answer = (case rev (base_messages result) of
                            [] \<Rightarrow> fallback_answer
                          | m # earlier \<Rightarrow> message_content m)\<rparr>"
  using assms
  by (simp add: chat_def Let_def first_content_base base_messages_rev split: list.splits)

text \<open>C2 as amended, at a run whose final conversation ends with a tool message.\<close>

theorem chat_answer_is_last_message_witness:
  "chat (\<lambda>ms cs. Inr (map Message ms
                      @ [Message (AIMessage ''calling''), Message (ToolMessage ''Source: a.txt'')]))
        \<lparr>session_id = ''s'', messages = [\<lparr>role = ''user'', content = ''hi''\<rparr>]\<rparr>
     = Inr \<lparr>answer = ''Source: a.txt''\<rparr>"
  using chat_answer_is_last_message
          [of "\<lambda>ms cs. Inr (map Message ms
                      @ [Message (AIMessage ''calling''), Message (ToolMessage ''Source: a.txt'')])"
              "\<lparr>session_id = ''s'', messages = [\<lparr>role = ''user'', content = ''hi''\<rparr>]\<rparr>"
              "[Message (HumanMessage ''hi''), Message (AIMessage ''calling''),
                Message (ToolMessage ''Source: a.txt'')]"]
  by (simp add: convert_messages_def)

text \<open>
  C2 as stated fails: when the final conversation ends with an assistant message of empty
  content and holds no other assistant message, the endpoint answers with the empty
  string, where the claim asks for the fallback string.
\<close>

theorem chat_answer_empty_counterexample:
  "chat (\<lambda>ms cs. Inr [Message (HumanMessage ''hi''), Message (AIMessage [])])
        \<lparr>session_id = ''s'', messages = [\<lparr>role = ''user'', content = ''hi''\<rparr>]\<rparr>
     = Inr \<lparr>answer = []\<rparr>
   \<and> spec_answer [Message (HumanMessage ''hi''), Message (AIMessage [])] = fallback_answer
   \<and> fallback_answer \<noteq> []"
  by (simp add: chat_def spec_answer_def fallback_answer_def)

section \<open>Properties of the retrieval tool\<close>

text \<open>
  C7: when the search returns no document, the tool returns the sentence
  "No relevant documents found." and nothing else: a string, not an exception.
\<close>

theorem retrieve_documents_no_results:
  assumes "retriever_invoke RETRIEVAL_K query = Inr []"
  shows "retrieve_documents retriever_invoke query = Inr ''No relevant documents found.''"
  using assms by (simp add: retrieve_documents_def)

text \<open>C7 at a retriever over an empty index.\<close>

theorem retrieve_documents_no_results_witness:
  "retrieve_documents (\<lambda>k q. Inr []) ''leave policy'' = Inr ''No relevant documents found.''"
  using retrieve_documents_no_results [of "\<lambda>k q. Inr []" "''leave policy''"] by simp

lemma foldl_format_document:
  "foldl (\<lambda>acc doc. acc @ [format_document doc]) acc ds = acc @ map format_document ds"
  by (induction ds arbitrary: acc) simp_all

lemma str_join_Cons: "str_join sep (x # xs) = x @ concat (map (\<lambda>y. sep @ y) xs)"
  by (induction xs arbitrary: x) simp_all

lemma basename_no_slash: "CHR ''/'' \<notin> set (basename s)"
  by (auto simp: basename_def dest: set_takeWhileD)

lemma basename_suffix: "basename s = s \<or> endswith s (CHR ''/'' # basename s)"
proof -
  let ?P = "\<lambda>c. c \<noteq> CHR ''/''"
  show ?thesis
  proof (cases "dropWhile ?P (rev s)")
    case Nil
    then have "takeWhile ?P (rev s) = rev s"
      by (metis takeWhile_dropWhile_id append_Nil2)
    then have "basename s = s" by (metis basename_def rev_rev_ident)
    then show ?thesis ..
  next
    case (Cons c cs)
    then have c: "c = CHR ''/''"
      using hd_dropWhile [of ?P "rev s"] by auto
    have "rev s = takeWhile ?P (rev s) @ c # cs"
      using Cons takeWhile_dropWhile_id [of ?P "rev s"] by simp
    then have "s = rev cs @ CHR ''/'' # basename s"
      using c by (metis basename_def rev_append rev.simps(2) rev_rev_ident append.assoc
                    append_Cons append_Nil)
    then have "endswith s (CHR ''/'' # basename s)"
      by (metis endswith_def length_append le_add2 diff_add_inverse2 append_eq_conv_conj)
    then show ?thesis ..
  qed
qed

text \<open>
  C8: for a non-empty result sequence the tool returns the blocks of the results in the
  order of the search, each block after the first preceded by a blank line (two newline
  characters). A block is "Source: ", the basename of the document's source, a line of
  three dashes and the raw chunk text; the basename holds no slash and is the whole
  source or what follows a slash at its end.
\<close>

theorem retrieve_documents_format:
  assumes "retriever_invoke RETRIEVAL_K query = Inr (d # ds)"
  shows "retrieve_documents retriever_invoke query =
           Inr (format_document d @ concat (map (\<lambda>x. newline @ newline @ format_document x) ds))
         \<and> (\<forall>x. format_document x =
                  ''Source: '' @ basename (source_of x) @ newline @ ''---'' @ newline @ page_content x)
         \<and> (\<forall>s. CHR ''/'' \<notin> set (basename s)
                \<and> (basename s = s \<or> endswith s (CHR ''/'' # basename s)))"
proof (intro conjI allI)
  show "retrieve_documents retriever_invoke query =
          Inr (format_document d @ concat (map (\<lambda>x. newline @ newline @ format_document x) ds))"
    using assms
    by (simp add: retrieve_documents_def foldl_format_document str_join_Cons Let_def comp_def
          del: foldl_Cons)
next
  fix x show "format_document x =
      ''Source: '' @ basename (source_of x) @ newline @ ''---'' @ newline @ page_content x"
    by (simp add: format_document_def source_of_def Let_def)
next
  fix s show "CHR ''/'' \<notin> set (basename s)" by (rule basename_no_slash)
next
  fix s show "basename s = s \<or> endswith s (CHR ''/'' # basename s)" by (rule basename_suffix)
qed

text \<open>C8 at a search that finds two chunks.\<close>

theorem retrieve_documents_format_witness:
  "retrieve_documents
     (\<lambda>k q. Inr [doc ''Leave is 12 days.'' ''./data/hr.txt'', doc ''Badge rules.'' ''./data/it.txt''])
     ''leave'' =
     Inr (''Source: hr.txt'' @ newline @ ''---'' @ newline @ ''Leave is 12 days.''
          @ newline @ newline
          @ ''Source: it.txt'' @ newline @ ''---'' @ newline @ ''Badge rules.'')"
  using retrieve_documents_format
          [of "\<lambda>k q. Inr [doc ''Leave is 12 days.'' ''./data/hr.txt'',
                           doc ''Badge rules.'' ''./data/it.txt'']"
              "''leave''" "doc ''Leave is 12 days.'' ''./data/hr.txt''"
              "[doc ''Badge rules.'' ''./data/it.txt'']"]
  by (simp add: doc_def source_of_def basename_def)

section \<open>Properties of document loading\<close>

lemma foldl_load_file:
  "foldl (load_file os w d) (docs, out) fs =
     (docs @ concat (map (file_documents os w d) fs),
      out @ concat (map (file_warnings os w d) fs))"
  by (induction fs arbitrary: docs out)
     (simp_all add: load_file_def file_documents_def file_warnings_def Let_def split: sum.splits)

text \<open>
  C9: when the data folder exists and can be listed, the pass hands to the splitter the
  documents of all readable text files, in listing order, and returns the splitter's
  result (the empty list when no file was readable). A text file whose read raises
  contributes no document, its warning "Error reading file <path>: <exception>" is among
  the printed lines, and the pass goes on to the files after it.
\<close>

theorem load_skips_unreadable_files:
  assumes "os_path_exists os w data_folder"
    and "os_listdir os w data_folder = Inr filenames"
  shows "fst (load_and_process_documents os split_documents w data_folder chunk_size chunk_overlap) =
           (if concat (map (file_documents os w data_folder) filenames) = [] then Inr []
            else split_documents chunk_size chunk_overlap
                   (concat (map (file_documents os w data_folder) filenames)))
         \<and> (\<forall>f \<in> set filenames. \<forall>e.
               endswith f ''.txt'' \<and> open_read os w (path_join data_folder f) = Inl e \<longrightarrow>
               file_documents os w data_folder f = []
               \<and> (''Error reading file '' @ path_join data_folder f @ '': '' @ exn_str e)
                     \<in> set (snd (load_and_process_documents os split_documents w data_folder
                                    chunk_size chunk_overlap)))"
proof (intro conjI ballI allI impI)
  show "fst (load_and_process_documents os split_documents w data_folder chunk_size chunk_overlap) =
           (if concat (map (file_documents os w data_folder) filenames) = [] then Inr []
            else split_documents chunk_size chunk_overlap
                   (concat (map (file_documents os w data_folder) filenames)))"
    using assms
    by (auto simp: load_and_process_documents_def foldl_load_file Let_def split: sum.splits)
next
  fix f e
  assume "f \<in> set filenames"
    and "endswith f ''.txt'' \<and> open_read os w (path_join data_folder f) = Inl e"
  then show "file_documents os w data_folder f = []"
    by (simp add: file_documents_def)
next
  fix f e
  assume f: "f \<in> set filenames"
    and u: "endswith f ''.txt'' \<and> open_read os w (path_join data_folder f) = Inl e"
  let ?msg = "''Error reading file '' @ path_join data_folder f @ '': '' @ exn_str e"
  have "file_warnings os w data_folder f = [?msg]"
    using u by (simp add: file_warnings_def)
  then have "?msg \<in> set (concat (map (file_warnings os w data_folder) filenames))"
    using f by force
  moreover have "filenames \<noteq> []" using f by auto
  ultimately show "?msg \<in> set (snd (load_and_process_documents os split_documents w data_folder
                                    chunk_size chunk_overlap))"
    using assms
    by (auto simp: load_and_process_documents_def foldl_load_file Let_def split: sum.splits)
qed

text \<open>
  C9 at a folder whose first text file cannot be read: the second is loaded, the first
  leaves its warning, and the file that is no text file is ignored.
\<close>

theorem load_skips_unreadable_files_witness:
  "fst (load_and_process_documents example_os keep_whole fs_docs ''d'' 1200 200)
     = Inr [doc ''hi'' ''d/b.txt'']
   \<and> ''Error reading file d/a.txt: Is a directory''
       \<in> set (snd (load_and_process_documents example_os keep_whole fs_docs ''d'' 1200 200))"
proof -
  have ex: "os_path_exists example_os fs_docs ''d''"
    by (simp add: example_os_def example_exists_def fs_docs_def)
  have ls: "os_listdir example_os fs_docs ''d'' = Inr [''a.txt'', ''b.txt'', ''c.md'']"
    by (simp add: example_os_def example_listdir_def fs_docs_def startswith_def)
  have a: "open_read example_os fs_docs (path_join ''d'' ''a.txt'') = Inl (OSError ''Is a directory'')"
    by (simp add: example_os_def example_read_def fs_docs_def path_join_def startswith_def
          endswith_def)
  have b: "open_read example_os fs_docs (path_join ''d'' ''b.txt'') = Inr ''hi''"
    by (simp add: example_os_def example_read_def fs_docs_def path_join_def startswith_def
          endswith_def)
  have pb: "path_join ''d'' ''b.txt'' = ''d/b.txt''"
    and pa: "path_join ''d'' ''a.txt'' = ''d/a.txt''"
    by (simp_all add: path_join_def startswith_def endswith_def)
  have e: "endswith ''a.txt'' ''.txt''" "endswith ''b.txt'' ''.txt''"
    "\<not> endswith ''c.md'' ''.txt''"
    by (simp_all add: endswith_def)
  show ?thesis
    using load_skips_unreadable_files [OF ex ls, of keep_whole 1200 200] a b e
    by (simp add: file_documents_def keep_whole_def doc_def pa pb)
qed

section \<open>Properties of the vector store\<close>

text \<open>
  C1: when the marker file \<^verbatim>\<open>chroma.sqlite3\<close> exists under the persist directory, the
  result of the call (the handle or the exception, and the file system left behind) is
  the same for every two lists of chunks, empty or not; and the handle returned is the
  one Chroma's constructor loads from the persist directory, so every search on it
  answers from the persisted index.
\<close>

theorem get_vectorstore_reuse_ignores_splits:
  assumes "os_path_exists os w (path_join persist_directory ''chroma.sqlite3'')"
  shows "get_vectorstore os chroma splits embedding_model persist_directory w =
           get_vectorstore os chroma other_splits embedding_model persist_directory w
         \<and> (\<forall>vectorstore w'.
               chroma_open chroma persist_directory embedding_model w = (Inr vectorstore, w') \<longrightarrow>
               get_vectorstore os chroma splits embedding_model persist_directory w =
                 (Inr vectorstore, w'))"
  using assms by (simp add: get_vectorstore_def Let_def)

text \<open>
  C1 on the example store: an index is built from one chunk; opening again with another
  chunk, or with none, returns the index of the first build and leaves the files alone.
\<close>

theorem get_vectorstore_reuse_ignores_splits_witness:
  "get_vectorstore example_os example_chroma [doc ''a'' ''x''] embed_all ''v'' []
     = (Inr (''a'' @ newline), fs_built)
   \<and> os_path_exists example_os fs_built (path_join ''v'' ''chroma.sqlite3'')
   \<and> get_vectorstore example_os example_chroma [doc ''c'' ''y''] embed_all ''v'' fs_built
       = (Inr (''a'' @ newline), fs_built)
   \<and> get_vectorstore example_os example_chroma [] embed_all ''v'' fs_built
       = (Inr (''a'' @ newline), fs_built)"
proof -
  have p: "path_join ''v'' ''chroma.sqlite3'' = ''v/chroma.sqlite3''"
    by (simp add: path_join_def startswith_def endswith_def)
  have m: "os_path_exists example_os fs_built (path_join ''v'' ''chroma.sqlite3'')"
    by (simp add: p example_os_def example_exists_def fs_built_def)
  have o: "chroma_open example_chroma ''v'' embed_all fs_built = (Inr (''a'' @ newline), fs_built)"
    by (simp add: p example_chroma_def example_open_def example_read_def fs_built_def)
  have first: "get_vectorstore example_os example_chroma [doc ''a'' ''x''] embed_all ''v'' []
     = (Inr (''a'' @ newline), fs_built)"
    by (simp add: get_vectorstore_def p example_os_def example_exists_def example_makedirs_def
          example_chroma_def example_from_documents_def example_read_def embed_all_def doc_def
          fs_built_def)
  note inst = get_vectorstore_reuse_ignores_splits
                [OF m, of example_chroma "[doc ''c'' ''y'']" embed_all "[]"]
  have reuse: "get_vectorstore example_os example_chroma [doc ''c'' ''y''] embed_all ''v'' fs_built
                 = (Inr (''a'' @ newline), fs_built)"
    using inst o by blast
  have same: "get_vectorstore example_os example_chroma [] embed_all ''v'' fs_built
                = (Inr (''a'' @ newline), fs_built)"
    using inst reuse by metis
  show ?thesis
    using first m reuse same by (simp only: simp_thms)
qed

text \<open>
  C3: with no marker file under the persist directory and an empty list of chunks, the
  call raises the ValueError "Cannot build vector store: No document splits provided."
  before anything is removed, created or written: the file system is as it was.
\<close>

theorem get_vectorstore_empty_splits_raises:
  assumes "\<not> os_path_exists os w (path_join persist_directory ''chroma.sqlite3'')"
  shows "get_vectorstore os chroma [] embedding_model persist_directory w =
           (Inl (ValueError ''Cannot build vector store: No document splits provided.'' None), w)"
  using assms by (simp add: get_vectorstore_def Let_def)

text \<open>C3 on a persist directory that holds a stale file and no marker.\<close>

theorem get_vectorstore_empty_splits_raises_witness:
  "\<not> os_path_exists example_os fs_stale (path_join ''v'' ''chroma.sqlite3'')
   \<and> get_vectorstore example_os example_chroma [] embed_all ''v'' fs_stale =
       (Inl (ValueError ''Cannot build vector store: No document splits provided.'' None),
        fs_stale)"
proof -
  have m: "\<not> os_path_exists example_os fs_stale (path_join ''v'' ''chroma.sqlite3'')"
    by (simp add: path_join_def startswith_def endswith_def example_os_def example_exists_def
          fs_stale_def)
  show ?thesis
    using get_vectorstore_empty_splits_raises [OF m, of example_chroma embed_all] m by simp
qed



text \<open>
  C4, as the code has it: a build (no marker file, at least one chunk) removes the
  persist directory when it exists, creates it again, and then has Chroma write the
  index into the persist directory itself. The call's result and the file system it
  leaves are those of \<^verbatim>\<open>Chroma.from_documents\<close> on that directory, also when it raises:
  there is no temporary location and no rename.
\<close>

theorem get_vectorstore_builds_in_place:
  assumes "\<not> os_path_exists os w (path_join persist_directory ''chroma.sqlite3'')"
    and "splits \<noteq> []"
    and "(if os_path_exists os w persist_directory then shutil_rmtree os persist_directory w
          else (Inr (), w)) = (Inr (), w1)"
    and "os_makedirs os persist_directory w1 = (Inr (), w2)"
  shows "get_vectorstore os chroma splits embedding_model persist_directory w =
           from_documents chroma splits embedding_model persist_directory w2"
  using assms by (simp add: get_vectorstore_def Let_def)

text \<open>
  C4 as amended, on a persist directory with a stale file: the directory is emptied and
  the two chunks are written under it.
\<close>

theorem get_vectorstore_builds_in_place_witness:
  "get_vectorstore example_os example_chroma [doc ''a'' ''x'', doc ''b'' ''y''] embed_all ''v''
     fs_stale
     = (Inr (''a'' @ newline @ ''b'' @ newline),
        [(''v'', Dir), (''v/chroma.sqlite3'', File (''a'' @ newline @ ''b'' @ newline))])"
proof -
  have p: "path_join ''v'' ''chroma.sqlite3'' = ''v/chroma.sqlite3''"
    by (simp add: path_join_def startswith_def endswith_def)
  have m: "\<not> os_path_exists example_os fs_stale (path_join ''v'' ''chroma.sqlite3'')"
    by (simp add: p example_os_def example_exists_def fs_stale_def)
  have n: "[doc ''a'' ''x'', doc ''b'' ''y''] \<noteq> []" by simp
  have r: "(if os_path_exists example_os fs_stale ''v'' then shutil_rmtree example_os ''v'' fs_stale
            else (Inr (), fs_stale)) = (Inr (), [])"
    by (simp add: example_os_def example_exists_def example_rmtree_def fs_stale_def
          startswith_def)
  have k: "os_makedirs example_os ''v'' [] = (Inr (), [(''v'', Dir)])"
    by (simp add: example_os_def example_makedirs_def example_exists_def)
  have f: "from_documents example_chroma [doc ''a'' ''x'', doc ''b'' ''y''] embed_all ''v''
             [(''v'', Dir)]
           = (Inr (''a'' @ newline @ ''b'' @ newline),
              [(''v'', Dir), (''v/chroma.sqlite3'', File (''a'' @ newline @ ''b'' @ newline))])"
    by (simp add: p example_chroma_def example_from_documents_def example_read_def
          embed_all_def doc_def)
  show ?thesis
    using get_vectorstore_builds_in_place [OF m n r k, of example_chroma embed_all] f by simp
qed

text \<open>
  C4 as stated fails: a build of two chunks whose second embedding raises has already
  removed the old content of the persist directory and leaves there a marker file with
  one chunk; the exception goes to the caller, nothing is undone, and the next call,
  finding the marker, returns that one-chunk index as the persisted one.
\<close>

theorem get_vectorstore_failed_build_counterexample:
  "get_vectorstore example_os example_chroma [doc ''a'' ''x'', doc ''bb'' ''y''] embed_short ''v''
     fs_stale
     = (Inl (OtherException ''embedding failed''), fs_built)
   \<and> fs_built \<noteq> fs_stale
   \<and> get_vectorstore example_os example_chroma [doc ''a'' ''x'', doc ''bb'' ''y''] embed_all ''v''
       fs_built
     = (Inr (''a'' @ newline), fs_built)"
proof -
  have p: "path_join ''v'' ''chroma.sqlite3'' = ''v/chroma.sqlite3''"
    by (simp add: path_join_def startswith_def endswith_def)
  have 1: "get_vectorstore example_os example_chroma [doc ''a'' ''x'', doc ''bb'' ''y'']
             embed_short ''v'' fs_stale
           = (Inl (OtherException ''embedding failed''), fs_built)"
    by (simp add: get_vectorstore_def p example_os_def example_exists_def example_rmtree_def
          example_makedirs_def example_chroma_def example_from_documents_def embed_short_def
          doc_def fs_stale_def fs_built_def startswith_def)
  have 2: "fs_built \<noteq> fs_stale"
    by (simp add: fs_built_def fs_stale_def)
  have 3: "get_vectorstore example_os example_chroma [doc ''a'' ''x'', doc ''bb'' ''y'']
             embed_all ''v'' fs_built
           = (Inr (''a'' @ newline), fs_built)"
    by (simp add: get_vectorstore_def p example_os_def example_exists_def example_chroma_def
          example_open_def example_read_def fs_built_def)
  show ?thesis using 1 2 3 by simp
qed

end
